theory Spec2Isabelle
  imports Complex_Main
begin

section \<open>Values, errors and attribute reads\<close>

text \<open>
  Every \<^verbatim>\<open>raise\<close> of the Python source is a value of type \<open>error\<close>; a call that may
  raise returns \<open>error + 'a\<close> with \<open>Inl\<close> for the exception.
\<close>

datatype error =
    AttributeError string
  | KeyError string
  | RunKeyError string
  | ServiceError string

text \<open>
  A config object of the host application is a bag of named attributes. Reading an
  attribute that was never set raises \<^verbatim>\<open>AttributeError\<close>; \<open>Faulty e\<close> stands for an
  attribute whose read raises some other exception \<open>e\<close>.
\<close>

datatype 'a attr = Absent | Value (the_value: 'a) | Faulty error

fun getattr :: "string \<Rightarrow> 'a attr \<Rightarrow> error + 'a" where
  "getattr a Absent = Inl (AttributeError a)"
| "getattr a (Value v) = Inr v"
| "getattr a (Faulty e) = Inl e"

record config =
  "method" :: "string attr"
  artifact_location :: "string attr"
  created_at :: "int attr"
  experiment_name :: "string attr"
  experiment_id :: "string attr"
  tracking_uri :: "string attr"
  tags :: "(string \<rightharpoonup> string) attr"
  runs :: "string list attr"
  run_name :: "string attr"
  run_id :: "string attr"
  run_uuid :: "string attr"
  artifact_uri :: "string attr"
  metrics :: "(string \<rightharpoonup> real) attr"

definition empty_config :: config where
  "empty_config =
     \<lparr>method = Absent, artifact_location = Absent, created_at = Absent,
      experiment_name = Absent, experiment_id = Absent, tracking_uri = Absent,
      tags = Absent, runs = Absent, run_name = Absent, run_id = Absent,
      run_uuid = Absent, artifact_uri = Absent, metrics = Absent\<rparr>"

section \<open>The two external services\<close>

text \<open>
  Modelled from the spec: the tracking-service client (the \<^verbatim>\<open>mlflow\<close> module), which is
  not part of this repository. \<^verbatim>\<open>get_experiment_by_name(name)\<close> answers with an experiment,
  with \<^verbatim>\<open>None\<close>, or raises; \<^verbatim>\<open>get_run(run_id)\<close> answers with a run or raises. The client
  is a parameter of every operation that calls it.
\<close>

record mlflow_experiment =
  exp_artifact_location :: string
  exp_creation_time :: int
  exp_experiment_id :: string
  exp_tags :: "string \<rightharpoonup> string"

record run_info =
  info_run_uuid :: string
  info_experiment_id :: string
  info_artifact_uri :: string

record run_data =
  data_tags :: "string \<rightharpoonup> string"
  data_metrics :: "string \<rightharpoonup> real"

record mlflow_run =
  info :: run_info
  data :: run_data

record mlflow =
  get_experiment_by_name :: "string \<Rightarrow> error + mlflow_experiment option"
  get_run :: "string \<Rightarrow> error + mlflow_run"

text \<open>
  Every call that leaves this component is recorded, in order, in the \<open>trace\<close> of the
  dataset it is made for, so that "no call" and "no write" are statements about the trace.
\<close>

datatype event =
    ListRuns
  | GetRunInfo string
  | InitRun
  | RegisterRun string
  | UpdateRunConfig string
  | GetExperimentByName string
  | GetRun string

text \<open>
  Modelled from the spec: the host application's dataset and its run registry, which are
  not part of this repository. The registry is a keyed store of config objects, kept in
  insertion order; \<^verbatim>\<open>register_run\<close> writes the record under the key and replaces a record
  already stored there, \<^verbatim>\<open>get_run_info\<close> raises when the key is unknown,
  \<^verbatim>\<open>update_run_config\<close> replaces the record of a known key, \<^verbatim>\<open>init_run\<close> returns a
  fresh config object and writes nothing.
\<close>

record dataset =
  registry :: "(string \<times> config) list"
  trace :: "event list"

datatype sample_collection =
    Dataset dataset
  | DatasetView dataset "string list"

fun underlying_dataset :: "sample_collection \<Rightarrow> dataset" where
  "underlying_dataset (Dataset d) = d"
| "underlying_dataset (DatasetView d stages) = d"

definition log_call :: "event \<Rightarrow> dataset \<Rightarrow> dataset" where
  "log_call ev d = d\<lparr>trace := trace d @ [ev]\<rparr>"

fun store :: "string \<Rightarrow> config \<Rightarrow> (string \<times> config) list \<Rightarrow> (string \<times> config) list" where
  "store k c [] = [(k, c)]"
| "store k c (p # ps) = (if fst p = k then (k, c) # ps else p # store k c ps)"

definition init_run :: "dataset \<Rightarrow> config \<times> dataset" where
  "init_run d = (empty_config, log_call InitRun d)"

definition register_run :: "string \<Rightarrow> config \<Rightarrow> dataset \<Rightarrow> dataset" where
  "register_run k c d = (log_call (RegisterRun k) d)\<lparr>registry := store k c (registry d)\<rparr>"

definition list_runs :: "dataset \<Rightarrow> string list \<times> dataset" where
  "list_runs d = (map fst (registry d), log_call ListRuns d)"

definition get_run_info :: "string \<Rightarrow> dataset \<Rightarrow> (error + config) \<times> dataset" where
  "get_run_info k d =
     (case map_of (registry d) k of
        None \<Rightarrow> (Inl (RunKeyError k), log_call (GetRunInfo k) d)
      | Some c \<Rightarrow> (Inr c, log_call (GetRunInfo k) d))"

definition update_run_config :: "string \<Rightarrow> config \<Rightarrow> dataset \<Rightarrow> (error + unit) \<times> dataset" where
  "update_run_config k c d =
     (if k \<in> set (map fst (registry d))
      then (Inr (), (log_call (UpdateRunConfig k) d)\<lparr>registry := store k c (registry d)\<rparr>)
      else (Inl (RunKeyError k), log_call (UpdateRunConfig k) d))"

section \<open>The plugin's functions\<close>

subsection \<open>\<^verbatim>\<open>_format_run_name\<close>\<close>

text \<open>\<^verbatim>\<open>s.replace(old, new)\<close> for one-character \<open>old\<close> and \<open>new\<close>.\<close>

primrec replace_char :: "char \<Rightarrow> char \<Rightarrow> string \<Rightarrow> string" where
  "replace_char old new [] = []"
| "replace_char old new (c # cs) =
     (if c = old then new # replace_char old new cs else c # replace_char old new cs)"

definition format_run_name :: "string \<Rightarrow> string" where
  "format_run_name rname = replace_char (CHR ''-'') (CHR ''_'') rname"

subsection \<open>\<^verbatim>\<open>_initialize_fiftyone_run_for_mlflow_experiment\<close>\<close>

text \<open>\<^verbatim>\<open>x or default\<close> on an optional string: \<^verbatim>\<open>None\<close> and the empty string are falsy.\<close>

fun or_default :: "string option \<Rightarrow> string \<Rightarrow> string" where
  "or_default None dflt = dflt"
| "or_default (Some s) dflt = (if s = [] then dflt else s)"

definition initialize_fiftyone_run_for_mlflow_experiment ::
  "mlflow \<Rightarrow> dataset \<Rightarrow> string \<Rightarrow> string option \<Rightarrow> (error + unit) \<times> dataset" where
  "initialize_fiftyone_run_for_mlflow_experiment ml d ename turi =
     (let d1 = log_call (GetExperimentByName ename) d in
      case get_experiment_by_name ml ename of
        Inl e \<Rightarrow> (Inl e, d1)
      | Inr found \<Rightarrow>
          (let uri = or_default turi ''http://localhost:8080'';
               (cfg, d2) = init_run d1
           in case found of
                None \<Rightarrow> (Inl (AttributeError ''artifact_location''), d2)
              | Some ex \<Rightarrow>
                  (Inr (),
                   register_run ename
                     (cfg\<lparr>method := Value ''mlflow_experiment'',
                          artifact_location := Value (exp_artifact_location ex),
                          created_at := Value (exp_creation_time ex),
                          experiment_name := Value ename,
                          experiment_id := Value (exp_experiment_id ex),
                          tracking_uri := Value uri,
                          tags := Value (exp_tags ex),
                          runs := Value []\<rparr>)
                     d2)))"

subsection \<open>\<^verbatim>\<open>_fiftyone_experiment_run_exists\<close>\<close>

definition fiftyone_experiment_run_exists :: "dataset \<Rightarrow> string \<Rightarrow> bool \<times> dataset" where
  "fiftyone_experiment_run_exists d ename =
     (let (names, d1) = list_runs d in (ename \<in> set names, d1))"

subsection \<open>\<^verbatim>\<open>_add_fiftyone_run_for_mlflow_run\<close>\<close>

definition add_fiftyone_run_for_mlflow_run ::
  "mlflow \<Rightarrow> dataset \<Rightarrow> string \<Rightarrow> string \<Rightarrow> (error + unit) \<times> dataset" where
  "add_fiftyone_run_for_mlflow_run ml d ename rid =
     (let d1 = log_call (GetRun rid) d in
      case get_run ml rid of
        Inl e \<Rightarrow> (Inl e, d1)
      | Inr r \<Rightarrow>
          (case data_tags (data r) ''mlflow.runName'' of
             None \<Rightarrow> (Inl (KeyError ''mlflow.runName''), d1)
           | Some rname \<Rightarrow>
               (let (cfg, d2) = init_run d1;
                    d3 = register_run (format_run_name rname)
                           (cfg\<lparr>method := Value ''mlflow_run'',
                                run_name := Value rname,
                                run_id := Value rid,
                                run_uuid := Value (info_run_uuid (info r)),
                                experiment_id := Value (info_experiment_id (info r)),
                                artifact_uri := Value (info_artifact_uri (info r)),
                                metrics := Value (data_metrics (data r)),
                                tags := Value (data_tags (data r))\<rparr>)
                           d2;
                    (looked, d4) = get_run_info ename d3
                in case looked of
                     Inl e \<Rightarrow> (Inl e, d4)
                   | Inr ecfg \<Rightarrow>
                       (case getattr ''runs'' (runs ecfg) of
                          Inl e \<Rightarrow> (Inl e, d4)
                        | Inr rs \<Rightarrow>
                            update_run_config ename (ecfg\<lparr>runs := Value (rs @ [rname])\<rparr>) d4))))"

subsection \<open>\<^verbatim>\<open>log_mlflow_run_to_fiftyone_dataset\<close>\<close>


definition log_mlflow_run_to_fiftyone_dataset ::
  "mlflow \<Rightarrow> sample_collection \<Rightarrow> string \<Rightarrow> string option \<Rightarrow> (error + unit) \<times> dataset" where
  "log_mlflow_run_to_fiftyone_dataset ml sc ename rid =
     (let d = underlying_dataset sc;
          (present, d1) = fiftyone_experiment_run_exists d ename;
          (made, d2) = (if \<not> present
                        then initialize_fiftyone_run_for_mlflow_experiment ml d1 ename None
                        else (Inr (), d1))
      in case made of
           Inl e \<Rightarrow> (Inl e, d2)
         | Inr u \<Rightarrow>
             (case rid of
                None \<Rightarrow> (Inr (), d2)
              | Some r \<Rightarrow>
                  if r \<noteq> [] then add_fiftyone_run_for_mlflow_run ml d2 ename r
                  else (Inr (), d2)))"

subsection \<open>\<^verbatim>\<open>get_candidate_experiments\<close>\<close>

text \<open>
  The list comprehension: for each key, \<^verbatim>\<open>get_run_info(r).config.method\<close> is compared
  with \<^verbatim>\<open>"mlflow_experiment"\<close>, and \<^verbatim>\<open>get_run_info(r)\<close> is called again for a key
  that is kept.
\<close>

fun mlflow_experiment_runs :: "string list \<Rightarrow> dataset \<Rightarrow> (error + config list) \<times> dataset" where
  "mlflow_experiment_runs [] d = (Inr [], d)"
| "mlflow_experiment_runs (r # rs) d =
     (case get_run_info r d of
        (Inl e, d1) \<Rightarrow> (Inl e, d1)
      | (Inr c, d1) \<Rightarrow>
          (case getattr ''method'' (method c) of
             Inl e \<Rightarrow> (Inl e, d1)
           | Inr m \<Rightarrow>
               if m = ''mlflow_experiment''
               then (case get_run_info r d1 of
                       (Inl e, d2) \<Rightarrow> (Inl e, d2)
                     | (Inr mer, d2) \<Rightarrow>
                         (case mlflow_experiment_runs rs d2 of
                            (Inl e, d3) \<Rightarrow> (Inl e, d3)
                          | (Inr mers, d3) \<Rightarrow> (Inr (mer # mers), d3)))
               else mlflow_experiment_runs rs d1))"

text \<open>\<^verbatim>\<open>try: uri = cfg.tracking_uri\<close> with a bare \<^verbatim>\<open>except:\<close>, which catches every exception.\<close>

definition tracking_uri_or_default :: "config \<Rightarrow> string" where
  "tracking_uri_or_default cfg =
     (case getattr ''tracking_uri'' (tracking_uri cfg) of
        Inl e \<Rightarrow> ''http://localhost:8080''
      | Inr u \<Rightarrow> u)"

text \<open>The \<^verbatim>\<open>for mer in mlflow_experiment_runs\<close> loop, with \<open>urls\<close> the list built so far.\<close>

fun append_urls ::
  "config list \<Rightarrow> (string \<times> string) list list \<Rightarrow> error + (string \<times> string) list list" where
  "append_urls [] urls = Inr urls"
| "append_urls (cfg # mers) urls =
     (case getattr ''experiment_name'' (experiment_name cfg) of
        Inl e \<Rightarrow> Inl e
      | Inr nm \<Rightarrow>
          (let uri = tracking_uri_or_default cfg
           in case getattr ''experiment_id'' (experiment_id cfg) of
                Inl e \<Rightarrow> Inl e
              | Inr eid \<Rightarrow>
                  append_urls mers
                    (urls @ [[(''url'', uri @ ''/#/experiments/'' @ eid), (''name'', nm)]])))"

definition get_candidate_experiments ::
  "dataset \<Rightarrow> (error + (string \<times> (string \<times> string) list list) list) \<times> dataset" where
  "get_candidate_experiments d =
     (let (names, d1) = list_runs d
      in case mlflow_experiment_runs names d1 of
           (Inl e, d2) \<Rightarrow> (Inl e, d2)
         | (Inr mers, d2) \<Rightarrow>
             (case append_urls mers [] of
                Inl e \<Rightarrow> (Inl e, d2)
              | Inr urls \<Rightarrow> (Inr [(''urls'', urls)], d2)))"

section \<open>Derived records and example inputs\<close>


text \<open>
  A tracking service that knows the experiment \<^verbatim>\<open>exp1\<close> (id \<^verbatim>\<open>42\<close>), the run
  \<^verbatim>\<open>run123\<close> named \<^verbatim>\<open>My-Run\<close> and a run without a name tag; a dataset with an empty
  registry, and one that holds the experiment record of \<^verbatim>\<open>exp1\<close>.
\<close>

definition example_client :: mlflow where
  "example_client =
     \<lparr>get_experiment_by_name =
        (\<lambda>n. if n = ''exp1''
              then Inr (Some \<lparr>exp_artifact_location = ''mlflow-artifacts:/42'',
                              exp_creation_time = 1700000000000,
                              exp_experiment_id = ''42'',
                              exp_tags = [''team'' \<mapsto> ''vision'']\<rparr>)
              else if n = ''down'' then Inl (ServiceError ''unreachable'')
              else Inr None),
      get_run =
        (\<lambda>i. if i = ''run123''
              then Inr \<lparr>info = \<lparr>info_run_uuid = ''run123'', info_experiment_id = ''42'',
                                info_artifact_uri = ''mlflow-artifacts:/42/run123''\<rparr>,
                        data = \<lparr>data_tags = [''mlflow.runName'' \<mapsto> ''My-Run''],
                                data_metrics = [''loss'' \<mapsto> 1]\<rparr>\<rparr>
              else if i = ''untagged''
              then Inr \<lparr>info = \<lparr>info_run_uuid = ''untagged'', info_experiment_id = ''42'',
                                info_artifact_uri = ''mlflow-artifacts:/42/untagged''\<rparr>,
                        data = \<lparr>data_tags = Map.empty, data_metrics = Map.empty\<rparr>\<rparr>
              else Inl (ServiceError ''no such run''))\<rparr>"

definition empty_dataset :: dataset where
  "empty_dataset = \<lparr>registry = [], trace = []\<rparr>"

definition exp1_record :: config where
  "exp1_record =
     \<lparr>method = Value ''mlflow_experiment'', artifact_location = Value ''mlflow-artifacts:/42'',
      created_at = Value 1700000000000, experiment_name = Value ''exp1'',
      experiment_id = Value ''42'', tracking_uri = Value ''http://x'',
      tags = Value Map.empty, runs = Value [],
      run_name = Absent, run_id = Absent, run_uuid = Absent, artifact_uri = Absent,
      metrics = Absent\<rparr>"

definition example_dataset :: dataset where
  "example_dataset = \<lparr>registry = [(''exp1'', exp1_record)], trace = []\<rparr>"

text \<open>
  A dataset whose registry holds an experiment record written without a tracking URI, one
  whose tracking URI cannot be read, a complete one and a run record; and a dataset that
  holds no experiment record.
\<close>

definition legacy_dataset :: dataset where
  "legacy_dataset =
     \<lparr>registry =
        [(''old_exp'', exp1_record\<lparr>experiment_name := Value ''old_exp'', experiment_id := Value ''7'',
                                   tracking_uri := Absent\<rparr>),
         (''My_Run'', empty_config\<lparr>method := Value ''mlflow_run'', run_name := Value ''My-Run''\<rparr>),
         (''lazy_exp'', exp1_record\<lparr>experiment_name := Value ''lazy_exp'',
                                    experiment_id := Value ''8'',
                                    tracking_uri := Faulty (ServiceError ''connection lost'')\<rparr>),
         (''exp1'', exp1_record)],
      trace = []\<rparr>"

definition runs_only_dataset :: dataset where
  "runs_only_dataset =
     \<lparr>registry =
        [(''My_Run'', empty_config\<lparr>method := Value ''mlflow_run'', run_name := Value ''My-Run''\<rparr>),
         (''eval'', empty_config\<lparr>method := Value ''evaluation''\<rparr>)],
      trace = []\<rparr>"

section \<open>Facts about the registry store\<close>


lemma keys_store:
  "map fst (store k c ps) = (if k \<in> set (map fst ps) then map fst ps else map fst ps @ [k])"
  by (induction ps) auto

lemmas api_defs = log_call_def init_run_def register_run_def list_runs_def get_run_info_def
  update_run_config_def empty_config_def








section \<open>Name normalisation\<close>

lemma replace_char_length: "length (replace_char a b s) = length s"
  by (induction s) auto

lemma replace_char_nth:
  "i < length s \<Longrightarrow> replace_char a b s ! i = (if s ! i = a then b else s ! i)"
  by (induction s arbitrary: i) (auto simp: nth_Cons split: nat.splits)

lemma replace_char_idem:
  "a \<noteq> b \<Longrightarrow> replace_char a b (replace_char a b s) = replace_char a b s"
  by (induction s) auto

text \<open>
  C9. \<^verbatim>\<open>_format_run_name\<close> keeps the length of its argument, turns every hyphen into an
  underscore at the same position, leaves every other character as it is, and applying it
  a second time changes nothing. It is a total function: there is no error result.
\<close>

theorem format_run_name_replaces_hyphens:
  "length (format_run_name s) = length s
   \<and> (\<forall>i<length s. format_run_name s ! i = (if s ! i = CHR ''-'' then CHR ''_'' else s ! i))
   \<and> format_run_name (format_run_name s) = format_run_name s"
  unfolding format_run_name_def
  by (simp add: replace_char_length replace_char_nth replace_char_idem)

theorem format_run_name_replaces_hyphens_witness:
  "(2::nat) < length ''My-Run-1''
   \<and> format_run_name ''My-Run-1'' ! 2 = CHR ''_''
   \<and> format_run_name ''My-Run-1'' ! 3 = CHR ''R''
   \<and> format_run_name (format_run_name ''My-Run-1'') = format_run_name ''My-Run-1''"
  using format_run_name_replaces_hyphens [of "''My-Run-1''"]
  by (simp add: format_run_name_def)

section \<open>Creating the experiment record\<close>




section \<open>Failures of the tracking service\<close>

text \<open>
  C5. When \<^verbatim>\<open>get_experiment_by_name\<close> raises, the initialisation fails with that very
  error; when it answers \<^verbatim>\<open>None\<close>, the initialisation fails on the first attribute read.
  When \<^verbatim>\<open>get_run\<close> raises, attaching fails with that very error; when the run has no
  \<^verbatim>\<open>mlflow.runName\<close> tag, attaching fails with a key error. In all four cases the dataset
  is as before but for the trace, which records no registry write.
\<close>

theorem tracking_failures_write_nothing:
  "(get_experiment_by_name ml ea = Inl erra \<longrightarrow>
      initialize_fiftyone_run_for_mlflow_experiment ml d ea turi
        = (Inl erra, d\<lparr>trace := trace d @ [GetExperimentByName ea]\<rparr>))
   \<and> (get_experiment_by_name ml eb = Inr None \<longrightarrow>
      initialize_fiftyone_run_for_mlflow_experiment ml d eb turi
        = (Inl (AttributeError ''artifact_location''),
           d\<lparr>trace := trace d @ [GetExperimentByName eb, InitRun]\<rparr>))
   \<and> (get_run ml ra = Inl errb \<longrightarrow>
      add_fiftyone_run_for_mlflow_run ml d ename ra
        = (Inl errb, d\<lparr>trace := trace d @ [GetRun ra]\<rparr>))
   \<and> (get_run ml rb = Inr r \<and> data_tags (data r) ''mlflow.runName'' = None \<longrightarrow>
      add_fiftyone_run_for_mlflow_run ml d ename rb
        = (Inl (KeyError ''mlflow.runName''), d\<lparr>trace := trace d @ [GetRun rb]\<rparr>))"
  by (simp add: initialize_fiftyone_run_for_mlflow_experiment_def
      add_fiftyone_run_for_mlflow_run_def api_defs)

theorem tracking_failures_write_nothing_witness:
  "get_experiment_by_name example_client ''down'' = Inl (ServiceError ''unreachable'')
   \<and> initialize_fiftyone_run_for_mlflow_experiment example_client example_dataset ''down'' None
       = (Inl (ServiceError ''unreachable''),
          example_dataset\<lparr>trace := trace example_dataset @ [GetExperimentByName ''down'']\<rparr>)
   \<and> get_experiment_by_name example_client ''exp2'' = Inr None
   \<and> initialize_fiftyone_run_for_mlflow_experiment example_client example_dataset ''exp2'' None
       = (Inl (AttributeError ''artifact_location''),
          example_dataset\<lparr>trace := trace example_dataset @ [GetExperimentByName ''exp2'', InitRun]\<rparr>)
   \<and> get_run example_client ''run999'' = Inl (ServiceError ''no such run'')
   \<and> add_fiftyone_run_for_mlflow_run example_client example_dataset ''exp1'' ''run999''
       = (Inl (ServiceError ''no such run''),
          example_dataset\<lparr>trace := trace example_dataset @ [GetRun ''run999'']\<rparr>)
   \<and> add_fiftyone_run_for_mlflow_run example_client example_dataset ''exp1'' ''untagged''
       = (Inl (KeyError ''mlflow.runName''),
          example_dataset\<lparr>trace := trace example_dataset @ [GetRun ''untagged'']\<rparr>)"
  using tracking_failures_write_nothing
    [where ml = example_client and d = example_dataset and turi = None
       and ea = "''down''" and erra = "ServiceError ''unreachable''"
       and eb = "''exp2''"
       and ra = "''run999''" and errb = "ServiceError ''no such run''"
       and ename = "''exp1''" and rb = "''untagged''"
       and r = "\<lparr>info = \<lparr>info_run_uuid = ''untagged'', info_experiment_id = ''42'',
                                info_artifact_uri = ''mlflow-artifacts:/42/untagged''\<rparr>,
                        data = \<lparr>data_tags = Map.empty, data_metrics = Map.empty\<rparr>\<rparr>"]
  by (simp add: example_client_def)

section \<open>Attaching a run\<close>








section \<open>Ensuring the experiment record\<close>


lemma store_has_key: "k \<in> set (map fst (store k c ps))"
  by (simp add: keys_store)

lemma distinct_keys_store: "distinct (map fst ps) \<Longrightarrow> distinct (map fst (store k c ps))"
  by (simp add: keys_store)

lemma one_record_per_key:
  "distinct (map fst ps) \<Longrightarrow> k \<in> set (map fst ps) \<Longrightarrow> length (filter (\<lambda>p. fst p = k) ps) = 1"
  by (induction ps) (auto simp: filter_empty_conv image_iff)

lemma exists_when_absent:
  "ename \<notin> set (map fst (registry d)) \<Longrightarrow>
   fiftyone_experiment_run_exists d ename = (False, d\<lparr>trace := trace d @ [ListRuns]\<rparr>)"
  by (simp add: fiftyone_experiment_run_exists_def api_defs)

lemma exists_when_key:
  "ename \<in> set (map fst (registry d)) \<Longrightarrow>
   fiftyone_experiment_run_exists d ename = (True, d\<lparr>trace := trace d @ [ListRuns]\<rparr>)"
  by (simp add: fiftyone_experiment_run_exists_def api_defs)

lemma ensure_when_present:
  "ename \<in> set (map fst (registry (underlying_dataset sc))) \<Longrightarrow>
   log_mlflow_run_to_fiftyone_dataset ml sc ename None
     = (Inr (), (underlying_dataset sc)\<lparr>trace := trace (underlying_dataset sc) @ [ListRuns]\<rparr>)"
  by (simp add: log_mlflow_run_to_fiftyone_dataset_def exists_when_key)

lemma ensure_when_absent:
  "ename \<notin> set (map fst (registry (underlying_dataset sc))) \<Longrightarrow>
   log_mlflow_run_to_fiftyone_dataset ml sc ename None
     = initialize_fiftyone_run_for_mlflow_experiment ml
         ((underlying_dataset sc)\<lparr>trace := trace (underlying_dataset sc) @ [ListRuns]\<rparr>)
         ename None"
  by (simp add: log_mlflow_run_to_fiftyone_dataset_def exists_when_absent split: sum.splits prod.splits)

lemma initialize_registry:
  "registry (snd (initialize_fiftyone_run_for_mlflow_experiment ml d ename turi)) = registry d
   \<or> (fst (initialize_fiftyone_run_for_mlflow_experiment ml d ename turi) = Inr ()
      \<and> (\<exists>c. registry (snd (initialize_fiftyone_run_for_mlflow_experiment ml d ename turi))
              = store ename c (registry d)))"
  by (auto simp: initialize_fiftyone_run_for_mlflow_experiment_def api_defs Let_def
      split: sum.splits option.splits)

lemma initialize_success_registry:
  "fst (initialize_fiftyone_run_for_mlflow_experiment ml d ename turi) = Inr () \<Longrightarrow>
   \<exists>c. registry (snd (initialize_fiftyone_run_for_mlflow_experiment ml d ename turi))
        = store ename c (registry d)"
  by (auto simp: initialize_fiftyone_run_for_mlflow_experiment_def api_defs Let_def
      split: sum.splits option.splits)

lemma ensure_success_key:
  assumes "fst (log_mlflow_run_to_fiftyone_dataset ml sc ename None) = Inr ()"
  shows "ename \<in> set (map fst (registry (snd (log_mlflow_run_to_fiftyone_dataset ml sc ename None))))"
proof (cases "ename \<in> set (map fst (registry (underlying_dataset sc)))")
  case True
  then show ?thesis by (simp add: ensure_when_present)
next
  case False
  let ?d1 = "(underlying_dataset sc)\<lparr>trace := trace (underlying_dataset sc) @ [ListRuns]\<rparr>"
  have eq: "log_mlflow_run_to_fiftyone_dataset ml sc ename None
      = initialize_fiftyone_run_for_mlflow_experiment ml ?d1 ename None"
    using False by (rule ensure_when_absent)
  with assms have "fst (initialize_fiftyone_run_for_mlflow_experiment ml ?d1 ename None) = Inr ()"
    by simp
  from initialize_success_registry [OF this] obtain c where
    "registry (snd (initialize_fiftyone_run_for_mlflow_experiment ml ?d1 ename None))
       = store ename c (registry ?d1)" ..
  then show ?thesis
    unfolding eq using store_has_key [of ename c "registry ?d1"] by simp
qed

lemma ensure_keeps_distinct:
  assumes "distinct (map fst (registry (underlying_dataset sc)))"
  shows "distinct (map fst (registry (snd (log_mlflow_run_to_fiftyone_dataset ml sc ename None))))"
proof (cases "ename \<in> set (map fst (registry (underlying_dataset sc)))")
  case True
  then show ?thesis using assms by (simp add: ensure_when_present)
next
  case False
  let ?d1 = "(underlying_dataset sc)\<lparr>trace := trace (underlying_dataset sc) @ [ListRuns]\<rparr>"
  have eq: "log_mlflow_run_to_fiftyone_dataset ml sc ename None
      = initialize_fiftyone_run_for_mlflow_experiment ml ?d1 ename None"
    using False by (rule ensure_when_absent)
  show ?thesis
    unfolding eq
    using initialize_registry [of ml ?d1 ename None] assms
      distinct_keys_store [of "registry ?d1" ename]
    by auto
qed

text \<open>
  C3. Ensuring the experiment record is \<^verbatim>\<open>log_mlflow_run_to_fiftyone_dataset\<close> without a
  run id. When a first call has succeeded on a registry with one record per key, a second
  call for the same name, through any collection of the same dataset and whatever the
  tracking service now answers, succeeds, makes the single call \<^verbatim>\<open>list_runs\<close> (no call to
  the tracking service, no registry write), leaves the registry as it was, and the registry
  holds exactly one record under the name.
\<close>

theorem ensure_twice_is_idempotent:
  assumes "distinct (map fst (registry (underlying_dataset sc)))"
      and "log_mlflow_run_to_fiftyone_dataset ml sc ename None = (Inr (), d1)"
      and "underlying_dataset sc' = d1"
  shows "log_mlflow_run_to_fiftyone_dataset ml' sc' ename None
           = (Inr (), d1\<lparr>trace := trace d1 @ [ListRuns]\<rparr>)
     \<and> registry (snd (log_mlflow_run_to_fiftyone_dataset ml' sc' ename None)) = registry d1
     \<and> length (filter (\<lambda>p. fst p = ename)
          (registry (snd (log_mlflow_run_to_fiftyone_dataset ml' sc' ename None)))) = 1"
proof -
  have key: "ename \<in> set (map fst (registry d1))"
    using ensure_success_key [of ml sc ename] assms(2) by simp
  have dist: "distinct (map fst (registry d1))"
    using ensure_keeps_distinct [OF assms(1), of ml ename] assms(2) by simp
  have second: "log_mlflow_run_to_fiftyone_dataset ml' sc' ename None
           = (Inr (), d1\<lparr>trace := trace d1 @ [ListRuns]\<rparr>)"
    using ensure_when_present [of ename sc' ml'] key assms(3) by simp
  show ?thesis
    using second one_record_per_key [OF dist key] by simp
qed

theorem ensure_twice_is_idempotent_witness:
  "distinct (map fst (registry (underlying_dataset (Dataset empty_dataset))))
   \<and> fst (log_mlflow_run_to_fiftyone_dataset example_client (Dataset empty_dataset) ''exp1'' None)
       = Inr ()
   \<and> trace (snd (log_mlflow_run_to_fiftyone_dataset example_client (Dataset empty_dataset)
        ''exp1'' None)) = [ListRuns, GetExperimentByName ''exp1'', InitRun, RegisterRun ''exp1'']
   \<and> trace (snd (log_mlflow_run_to_fiftyone_dataset example_client
        (DatasetView (snd (log_mlflow_run_to_fiftyone_dataset example_client
           (Dataset empty_dataset) ''exp1'' None)) [''Limit(10)''])
        ''exp1'' None))
       = [ListRuns, GetExperimentByName ''exp1'', InitRun, RegisterRun ''exp1'', ListRuns]
   \<and> length (filter (\<lambda>p. fst p = ''exp1'')
        (registry (snd (log_mlflow_run_to_fiftyone_dataset example_client
          (DatasetView (snd (log_mlflow_run_to_fiftyone_dataset example_client
             (Dataset empty_dataset) ''exp1'' None)) [''Limit(10)''])
          ''exp1'' None)))) = 1"
proof -
  let ?first = "log_mlflow_run_to_fiftyone_dataset example_client (Dataset empty_dataset) ''exp1'' None"
  have h1: "distinct (map fst (registry (underlying_dataset (Dataset empty_dataset))))"
    by (simp add: empty_dataset_def)
  have f: "fst ?first = Inr ()"
    and t: "trace (snd ?first) = [ListRuns, GetExperimentByName ''exp1'', InitRun, RegisterRun ''exp1'']"
    by (simp_all add: log_mlflow_run_to_fiftyone_dataset_def fiftyone_experiment_run_exists_def
        initialize_fiftyone_run_for_mlflow_experiment_def api_defs example_client_def
        empty_dataset_def)
  have h2: "?first = (Inr (), snd ?first)"
    using f by (simp add: prod_eq_iff)
  have h3: "underlying_dataset (DatasetView (snd ?first) [''Limit(10)'']) = snd ?first"
    by simp
  let ?second = "log_mlflow_run_to_fiftyone_dataset example_client
      (DatasetView (snd ?first) [''Limit(10)'']) ''exp1'' None"
  note twice = ensure_twice_is_idempotent [OF h1 h2 h3, of example_client]
  from twice have "?second = (Inr (), (snd ?first)\<lparr>trace := trace (snd ?first) @ [ListRuns]\<rparr>)"
    by (rule conjunct1)
  then have "trace (snd ?second) = trace (snd ?first) @ [ListRuns]"
    by simp
  then have t2: "trace (snd ?second)
      = [ListRuns, GetExperimentByName ''exp1'', InitRun, RegisterRun ''exp1'', ListRuns]"
    by (simp only: t append.simps)
  from twice have one: "length (filter (\<lambda>p. fst p = ''exp1'') (registry (snd ?second))) = 1"
    by (rule conjunct2 [THEN conjunct2])
  show ?thesis
    using h1 f t t2 one by (intro conjI)
qed

section \<open>The public entry point\<close>














section \<open>Listing the experiment links\<close>

lemma get_run_info_registry: "registry (snd (get_run_info k d)) = registry d"
  by (simp add: get_run_info_def log_call_def split: option.splits)

lemma get_run_info_found:
  "map_of (registry d) k = Some c \<Longrightarrow> fst (get_run_info k d) = Inr c"
  by (simp add: get_run_info_def)

lemma mlflow_experiment_runs_result:
  assumes "registry d = reg"
      and "\<forall>k \<in> set names. \<exists>c m. map_of reg k = Some c \<and> method c = Value m"
  shows "fst (mlflow_experiment_runs names d)
           = Inr (filter (\<lambda>c. method c = Value ''mlflow_experiment'')
                    (map (\<lambda>k. the (map_of reg k)) names))
       \<and> registry (snd (mlflow_experiment_runs names d)) = reg"
  using assms
proof (induction names arbitrary: d)
  case Nil
  then show ?case by simp
next
  case (Cons k names)
  from Cons.prems obtain c m where c: "map_of reg k = Some c" "method c = Value m"
    by auto
  have later: "\<forall>k \<in> set names. \<exists>c m. map_of reg k = Some c \<and> method c = Value m"
    using Cons.prems(2) by simp
  obtain d1 where g1: "get_run_info k d = (Inr c, d1)" and r1: "registry d1 = reg"
    using get_run_info_found [of d k c] get_run_info_registry [of k d] c(1) Cons.prems(1)
    by (cases "get_run_info k d") auto
  obtain d2 where g2: "get_run_info k d1 = (Inr c, d2)" and r2: "registry d2 = reg"
    using get_run_info_found [of d1 k c] get_run_info_registry [of k d1] c(1) r1
    by (cases "get_run_info k d1") auto
  show ?case
  proof (cases "m = ''mlflow_experiment''")
    case True
    obtain res d3 where g3: "mlflow_experiment_runs names d2 = (res, d3)"
      by (cases "mlflow_experiment_runs names d2") blast
    from Cons.IH [OF r2 later] g3 have
      "res = Inr (filter (\<lambda>c. method c = Value ''mlflow_experiment'')
                    (map (\<lambda>k. the (map_of reg k)) names))"
      and "registry d3 = reg"
      by simp_all
    then show ?thesis
      using True c by (simp add: g1 g2 g3)
  next
    case False
    then show ?thesis
      using Cons.IH [OF r1 later] c by (simp add: g1)
  qed
qed

lemma lookup_all_keys:
  "distinct (map fst ps) \<Longrightarrow> map (\<lambda>k. the (map_of ps k)) (map fst ps) = map snd ps"
proof (induction ps)
  case Nil
  then show ?case by simp
next
  case (Cons p ps)
  from Cons.prems have fresh: "fst p \<notin> fst ` set ps" and dist: "distinct (map fst ps)"
    by simp_all
  have "map (\<lambda>k. the (map_of (p # ps) k)) (map fst ps) = map (\<lambda>k. the (map_of ps k)) (map fst ps)"
  proof (rule map_cong [OF refl])
    fix k assume "k \<in> set (map fst ps)"
    then have "k \<in> fst ` set ps" by simp
    with fresh have "k \<noteq> fst p" by blast
    then show "the (map_of (p # ps) k) = the (map_of ps k)"
      by (cases p) simp
  qed
  also have "\<dots> = map snd ps"
    using dist by (rule Cons.IH)
  finally show ?case
    by (cases p) simp
qed

lemma append_urls_result:
  assumes "\<forall>c \<in> set mers. \<exists>n i. experiment_name c = Value n \<and> experiment_id c = Value i"
  shows "append_urls mers urls
     = Inr (urls @ map (\<lambda>c. [(''url'', tracking_uri_or_default c @ ''/#/experiments/''
                                  @ the_value (experiment_id c)),
                              (''name'', the_value (experiment_name c))]) mers)"
  using assms
proof (induction mers arbitrary: urls)
  case Nil
  then show ?case by simp
next
  case (Cons c mers)
  then obtain n i where "experiment_name c = Value n" "experiment_id c = Value i"
    by auto
  with Cons show ?case by simp
qed

lemma get_candidate_experiments_result:
  assumes "distinct (map fst (registry d))"
      and "\<forall>c \<in> set (map snd (registry d)). \<exists>m. method c = Value m"
      and "\<forall>c \<in> set (map snd (registry d)). method c = Value ''mlflow_experiment'' \<longrightarrow>
             (\<exists>n i. experiment_name c = Value n \<and> experiment_id c = Value i)"
  shows "fst (get_candidate_experiments d)
     = Inr [(''urls'',
             map (\<lambda>c. [(''url'', tracking_uri_or_default c @ ''/#/experiments/''
                                  @ the_value (experiment_id c)),
                        (''name'', the_value (experiment_name c))])
               (filter (\<lambda>c. method c = Value ''mlflow_experiment'') (map snd (registry d))))]
     \<and> registry (snd (get_candidate_experiments d)) = registry d"
proof -
  let ?d1 = "d\<lparr>trace := trace d @ [ListRuns]\<rparr>"
  let ?kept = "filter (\<lambda>c. method c = Value ''mlflow_experiment'') (map snd (registry d))"
  have "\<forall>k \<in> set (map fst (registry d)). \<exists>c m. map_of (registry d) k = Some c \<and> method c = Value m"
  proof
    fix k assume "k \<in> set (map fst (registry d))"
    then obtain c where c: "map_of (registry d) k = Some c"
      by (metis domD dom_map_of_conv_image_fst list.set_map)
    then have "c \<in> set (map snd (registry d))"
      by (metis map_of_SomeD image_eqI list.set_map snd_conv)
    with assms(2) c show "\<exists>c m. map_of (registry d) k = Some c \<and> method c = Value m"
      by auto
  qed
  from mlflow_experiment_runs_result [OF _ this, of ?d1]
  have "fst (mlflow_experiment_runs (map fst (registry d)) ?d1)
          = Inr (filter (\<lambda>c. method c = Value ''mlflow_experiment'')
                  (map (\<lambda>k. the (map_of (registry d) k)) (map fst (registry d))))
      \<and> registry (snd (mlflow_experiment_runs (map fst (registry d)) ?d1)) = registry d"
    by simp
  then have sel: "fst (mlflow_experiment_runs (map fst (registry d)) ?d1) = Inr ?kept"
    and reg: "registry (snd (mlflow_experiment_runs (map fst (registry d)) ?d1)) = registry d"
    unfolding lookup_all_keys [OF assms(1)] by blast+
  obtain d2 where run: "mlflow_experiment_runs (map fst (registry d)) ?d1 = (Inr ?kept, d2)"
    and reg2: "registry d2 = registry d"
    using sel reg by (cases "mlflow_experiment_runs (map fst (registry d)) ?d1") auto
  have "\<forall>c \<in> set ?kept. \<exists>n i. experiment_name c = Value n \<and> experiment_id c = Value i"
    using assms(3) by auto
  from append_urls_result [OF this, of "[]"] run reg2 show ?thesis
    by (simp add: get_candidate_experiments_def list_runs_def log_call_def)
qed

text \<open>
  C6. On a registry with one record per key, in which the method of every record can be
  read and every record with method \<^verbatim>\<open>mlflow_experiment\<close> has a name, an id and a
  tracking URI, \<^verbatim>\<open>get_candidate_experiments\<close> returns the one-key mapping \<^verbatim>\<open>urls\<close> whose
  value has, in registry order, one entry per record with method \<^verbatim>\<open>mlflow_experiment\<close>
  and none for any other record: the URL is the tracking URI, \<^verbatim>\<open>/#/experiments/\<close> and the
  experiment id, the name is the experiment name.
\<close>

theorem get_candidate_experiments_lists_experiment_records:
  assumes "distinct (map fst (registry d))"
      and "\<forall>c \<in> set (map snd (registry d)). \<exists>m. method c = Value m"
      and "\<forall>c \<in> set (map snd (registry d)). method c = Value ''mlflow_experiment'' \<longrightarrow>
             (\<exists>n i u. experiment_name c = Value n \<and> experiment_id c = Value i
                      \<and> tracking_uri c = Value u)"
  shows "fst (get_candidate_experiments d)
     = Inr [(''urls'',
             map (\<lambda>c. [(''url'', the_value (tracking_uri c) @ ''/#/experiments/''
                                  @ the_value (experiment_id c)),
                        (''name'', the_value (experiment_name c))])
               (filter (\<lambda>c. method c = Value ''mlflow_experiment'') (map snd (registry d))))]"
proof -
  have named: "\<forall>c \<in> set (map snd (registry d)). method c = Value ''mlflow_experiment'' \<longrightarrow>
             (\<exists>n i. experiment_name c = Value n \<and> experiment_id c = Value i)"
    using assms(3) by blast
  have "map (\<lambda>c. [(''url'', tracking_uri_or_default c @ ''/#/experiments/''
                                  @ the_value (experiment_id c)),
                        (''name'', the_value (experiment_name c))])
               (filter (\<lambda>c. method c = Value ''mlflow_experiment'') (map snd (registry d)))
      = map (\<lambda>c. [(''url'', the_value (tracking_uri c) @ ''/#/experiments/''
                                  @ the_value (experiment_id c)),
                        (''name'', the_value (experiment_name c))])
               (filter (\<lambda>c. method c = Value ''mlflow_experiment'') (map snd (registry d)))"
  proof (rule map_cong [OF refl])
    fix c assume "c \<in> set (filter (\<lambda>c. method c = Value ''mlflow_experiment'') (map snd (registry d)))"
    then have "c \<in> set (map snd (registry d))" and "method c = Value ''mlflow_experiment''"
      by simp_all
    with assms(3) obtain u where "tracking_uri c = Value u"
      by blast
    then show "[(''url'', tracking_uri_or_default c @ ''/#/experiments/''
                                  @ the_value (experiment_id c)),
                        (''name'', the_value (experiment_name c))]
        = [(''url'', the_value (tracking_uri c) @ ''/#/experiments/''
                                  @ the_value (experiment_id c)),
                        (''name'', the_value (experiment_name c))]"
      by (simp add: tracking_uri_or_default_def)
  qed
  with get_candidate_experiments_result [OF assms(1) assms(2) named]
  show ?thesis by simp
qed

theorem get_candidate_experiments_lists_experiment_records_witness:
  "distinct (map fst (registry example_dataset))
   \<and> fst (get_candidate_experiments example_dataset)
       = Inr [(''urls'', [[(''url'', ''http://x/#/experiments/42''), (''name'', ''exp1'')]])]
   \<and> distinct (map fst (registry runs_only_dataset))
   \<and> fst (get_candidate_experiments runs_only_dataset) = Inr [(''urls'', [])]"
proof -
  have a1: "distinct (map fst (registry example_dataset))"
    by (simp add: example_dataset_def)
  have a2: "\<forall>c \<in> set (map snd (registry example_dataset)). \<exists>m. method c = Value m"
    by (simp add: example_dataset_def exp1_record_def)
  have a3: "\<forall>c \<in> set (map snd (registry example_dataset)).
      method c = Value ''mlflow_experiment'' \<longrightarrow>
        (\<exists>n i u. experiment_name c = Value n \<and> experiment_id c = Value i
                 \<and> tracking_uri c = Value u)"
    by (simp add: example_dataset_def exp1_record_def)
  have b1: "distinct (map fst (registry runs_only_dataset))"
    by (simp add: runs_only_dataset_def)
  have b2: "\<forall>c \<in> set (map snd (registry runs_only_dataset)). \<exists>m. method c = Value m"
    by (simp add: runs_only_dataset_def empty_config_def)
  have b3: "\<forall>c \<in> set (map snd (registry runs_only_dataset)).
      method c = Value ''mlflow_experiment'' \<longrightarrow>
        (\<exists>n i u. experiment_name c = Value n \<and> experiment_id c = Value i
                 \<and> tracking_uri c = Value u)"
    by (simp add: runs_only_dataset_def empty_config_def)
  have one: "fst (get_candidate_experiments example_dataset)
       = Inr [(''urls'', [[(''url'', ''http://x/#/experiments/42''), (''name'', ''exp1'')]])]"
    using get_candidate_experiments_lists_experiment_records [OF a1 a2 a3]
    by (simp add: example_dataset_def exp1_record_def)
  have none: "fst (get_candidate_experiments runs_only_dataset) = Inr [(''urls'', [])]"
    using get_candidate_experiments_lists_experiment_records [OF b1 b2 b3]
    by (simp add: runs_only_dataset_def empty_config_def)
  show ?thesis
    using a1 one b1 none by (intro conjI)
qed

text \<open>
  C8. The read of \<^verbatim>\<open>tracking_uri\<close> cannot make \<^verbatim>\<open>get_candidate_experiments\<close> fail: for a
  kept record whose tracking URI is absent, or whose read raises any other error, the URL is
  built from \<^verbatim>\<open>http://localhost:8080\<close> and the operation goes on to return its result.
\<close>

theorem tracking_uri_read_never_fails:
  assumes "distinct (map fst (registry d))"
      and "\<forall>c \<in> set (map snd (registry d)). \<exists>m. method c = Value m"
      and "\<forall>c \<in> set (map snd (registry d)). method c = Value ''mlflow_experiment'' \<longrightarrow>
             (\<exists>n i. experiment_name c = Value n \<and> experiment_id c = Value i)"
  shows "fst (get_candidate_experiments d)
     = Inr [(''urls'',
             map (\<lambda>c. [(''url'', (case tracking_uri c of
                                    Value u \<Rightarrow> u
                                  | Absent \<Rightarrow> ''http://localhost:8080''
                                  | Faulty e \<Rightarrow> ''http://localhost:8080'')
                                  @ ''/#/experiments/'' @ the_value (experiment_id c)),
                        (''name'', the_value (experiment_name c))])
               (filter (\<lambda>c. method c = Value ''mlflow_experiment'') (map snd (registry d))))]"
proof -
  have "\<And>c. tracking_uri_or_default c
      = (case tracking_uri c of
           Value u \<Rightarrow> u
         | Absent \<Rightarrow> ''http://localhost:8080''
         | Faulty e \<Rightarrow> ''http://localhost:8080'')"
    by (simp add: tracking_uri_or_default_def split: attr.splits)
  with get_candidate_experiments_result [OF assms] show ?thesis
    by simp
qed

theorem tracking_uri_read_never_fails_witness:
  "distinct (map fst (registry legacy_dataset))
   \<and> fst (get_candidate_experiments legacy_dataset)
       = Inr [(''urls'',
               [[(''url'', ''http://localhost:8080/#/experiments/7''), (''name'', ''old_exp'')],
                [(''url'', ''http://localhost:8080/#/experiments/8''), (''name'', ''lazy_exp'')],
                [(''url'', ''http://x/#/experiments/42''), (''name'', ''exp1'')]])]"
proof -
  have a1: "distinct (map fst (registry legacy_dataset))"
    by (simp add: legacy_dataset_def)
  have a2: "\<forall>c \<in> set (map snd (registry legacy_dataset)). \<exists>m. method c = Value m"
    by (simp add: legacy_dataset_def exp1_record_def empty_config_def)
  have a3: "\<forall>c \<in> set (map snd (registry legacy_dataset)).
      method c = Value ''mlflow_experiment'' \<longrightarrow>
        (\<exists>n i. experiment_name c = Value n \<and> experiment_id c = Value i)"
    by (simp add: legacy_dataset_def exp1_record_def empty_config_def)
  have "fst (get_candidate_experiments legacy_dataset)
       = Inr [(''urls'',
               [[(''url'', ''http://localhost:8080/#/experiments/7''), (''name'', ''old_exp'')],
                [(''url'', ''http://localhost:8080/#/experiments/8''), (''name'', ''lazy_exp'')],
                [(''url'', ''http://x/#/experiments/42''), (''name'', ''exp1'')]])]"
    using tracking_uri_read_never_fails [OF a1 a2 a3]
    by (simp add: legacy_dataset_def exp1_record_def empty_config_def)
  with a1 show ?thesis by (intro conjI)
qed

end
